theory Spec2Isabelle
  imports Main "HOL-Library.Word"
begin

section \<open>The asynchronous workers of \<^verbatim>\<open>database_async.cc\<close>\<close>

text \<open>
  The file defines one worker class per storage operation. Every worker is built by a
  constructor on the caller thread, has its \<^verbatim>\<open>Execute\<close> run on a background thread
  and its \<^verbatim>\<open>WorkComplete\<close> run back on the caller thread. The embedding keeps the
  classes, their fields and their methods; what a method does to the outside (a call into
  the database handle, an invocation of the JavaScript callback, the disposal of a key or
  value, the deletion of the callback object) is appended to a trace of events, and byte
  storage lives in an explicit memory so that copying and sharing can be told apart.
\<close>

subsection \<open>Bytes, memory and slices\<close>

type_synonym byte = "8 word"

text \<open>An address names one storage object; the memory is the list of all objects
  allocated so far, an object's address being its index.\<close>

type_synonym addr = nat
type_synonym memory = "byte list list"

text \<open>\<^verbatim>\<open>leveldb::Slice\<close>: a pointer and a length.\<close>

record Slice =
  slice_data :: addr
  slice_size :: nat

text \<open>\<^verbatim>\<open>leveldb::Range\<close>, built as \<^verbatim>\<open>range(start, end)\<close>; the source reads its
  fields \<^verbatim>\<open>range.start\<close> and \<^verbatim>\<open>range.limit\<close>.\<close>

record Range =
  start :: Slice
  limit :: Slice

definition Range :: "Slice \<Rightarrow> Slice \<Rightarrow> Range" where
  "Range s e = \<lparr>start = s, limit = e\<rparr>"

text \<open>Reading an object; an address that was never allocated holds no bytes.\<close>

definition load :: "memory \<Rightarrow> addr \<Rightarrow> byte list" where
  "load m a = (if a < length m then m ! a else [])"

subsection \<open>Engine option structs\<close>

datatype CompressionType = kNoCompression | kSnappyCompression

type_synonym Cache_ptr = nat
type_synonym FilterPolicy_ptr = nat

text \<open>\<^verbatim>\<open>leveldb::Options\<close>, with the nine fields the constructor of the open worker
  assigns. The engine declares \<^verbatim>\<open>write_buffer_size\<close> and \<^verbatim>\<open>block_size\<close> as
  \<^verbatim>\<open>size_t\<close> (64 bits) and \<^verbatim>\<open>max_open_files\<close> and \<^verbatim>\<open>block_restart_interval\<close> as
  \<^verbatim>\<open>int\<close>; an \<^verbatim>\<open>int\<close> field holds the value of the C integer, between \<open>- 2 ^ 31\<close> and
  \<open>2 ^ 31 - 1\<close>.\<close>

record Options =
  block_cache :: Cache_ptr
  filter_policy :: FilterPolicy_ptr
  create_if_missing :: bool
  error_if_exists :: bool
  compression :: CompressionType
  write_buffer_size :: "64 word"
  block_size :: "64 word"
  max_open_files :: int
  block_restart_interval :: int

text \<open>The implicit conversions of an assignment from a \<^verbatim>\<open>uint32_t\<close>: to \<^verbatim>\<open>size_t\<close> the
  value is widened; to \<^verbatim>\<open>int\<close> a value below \<open>2 ^ 31\<close> is kept and a larger one, which
  an \<^verbatim>\<open>int\<close> cannot hold, wraps around to the value less \<open>2 ^ 32\<close>.\<close>

definition uint32_to_size_t :: "32 word \<Rightarrow> 64 word" where
  "uint32_to_size_t x = ucast x"

definition uint32_to_int :: "32 word \<Rightarrow> int" where
  "uint32_to_int x = (if uint x < 2 ^ 31 then uint x else uint x - 2 ^ 32)"

text \<open>\<^verbatim>\<open>leveldb::ReadOptions\<close> and \<^verbatim>\<open>leveldb::WriteOptions\<close>, with the one field
  of each that the source assigns.\<close>

record ReadOptions =
  fill_cache :: bool

record WriteOptions =
  sync :: bool

text \<open>\<^verbatim>\<open>leveldb::WriteBatch\<close>: an ordered group of put and delete sub-operations.\<close>

datatype batch_op = BatchPut "byte list" "byte list" | BatchDel "byte list"
type_synonym WriteBatch = "batch_op list"

subsection \<open>Statuses and JavaScript values\<close>

text \<open>Modelled from the spec: the status type is declared outside this file; the spec's
  error taxonomy gives the kinds a status can carry, each with a message.\<close>

datatype error_kind =
  OpenError | NotOpenError | NotFound | IOError | WriteError | InvalidArgumentError

datatype Status = OK | Failed error_kind string

text \<open>
  The values handed to the callback. A number is a double, represented by its exact
  mathematical value (only integral doubles arise here); a string records the bytes it was
  decoded from; a buffer is the address of its backing store; an error carries a kind and
  a message.
\<close>

datatype napi_value =
    JsNull
  | JsUndefined
  | JsNumber int
  | JsString "byte list"
  | JsBuffer addr
  | JsObject nat
  | JsError error_kind string

subsection \<open>The database handle\<close>

text \<open>
  The database handle (\<^verbatim>\<open>database.h\<close>) is not part of this file: its seven blocking
  methods are a parameter of the model, each a function of the engine state \<open>'d\<close>. A method
  that takes slices is given the memory they point into; \<^verbatim>\<open>GetFromDatabase\<close> takes the
  current content of the \<^verbatim>\<open>std::string&\<close> it writes through and returns the new one.
\<close>

record 'd Database =
  OpenDatabase :: "Options \<Rightarrow> 'd \<Rightarrow> Status \<times> 'd"
  CloseDatabase :: "'d \<Rightarrow> 'd"
  GetFromDatabase :: "ReadOptions \<Rightarrow> Slice \<Rightarrow> memory \<Rightarrow> byte list \<Rightarrow> 'd \<Rightarrow> Status \<times> byte list \<times> 'd"
  PutToDatabase :: "WriteOptions \<Rightarrow> Slice \<Rightarrow> Slice \<Rightarrow> memory \<Rightarrow> 'd \<Rightarrow> Status \<times> 'd"
  DeleteFromDatabase :: "WriteOptions \<Rightarrow> Slice \<Rightarrow> memory \<Rightarrow> 'd \<Rightarrow> Status \<times> 'd"
  WriteBatchToDatabase :: "WriteOptions \<Rightarrow> WriteBatch \<Rightarrow> 'd \<Rightarrow> Status \<times> 'd"
  ApproximateSizeFromDatabase :: "Range \<Rightarrow> memory \<Rightarrow> 'd \<Rightarrow> 64 word \<times> 'd"

subsection \<open>Events and the world\<close>

text \<open>A call into the database handle, with its arguments, and what it returned.\<close>

datatype db_call =
    OpenDatabase_call Options
  | CloseDatabase_call
  | GetFromDatabase_call ReadOptions Slice
  | PutToDatabase_call WriteOptions Slice Slice
  | DeleteFromDatabase_call WriteOptions Slice
  | WriteBatchToDatabase_call WriteOptions WriteBatch
  | ApproximateSizeFromDatabase_call Range

datatype db_reply = ReplyStatus Status | ReplyVoid | ReplySize "64 word"

datatype event =
    DbCall db_call db_reply
  | Call napi_value "napi_value list"
  | NullCall "napi_value list"
  | Dispose napi_value Slice
  | DeleteCallback napi_value

record 'd world =
  db :: 'd
  mem :: memory
  trace :: "event list"

definition emit :: "event \<Rightarrow> 'd world \<Rightarrow> 'd world" where
  "emit e s = s\<lparr>trace := trace s @ [e]\<rparr>"

text \<open>Allocation of a new storage object: its address is the next free index.\<close>

definition alloc :: "byte list \<Rightarrow> 'd world \<Rightarrow> addr \<times> 'd world" where
  "alloc bs s = (length (mem s), s\<lparr>mem := mem s @ [bs]\<rparr>)"

subsection \<open>Calls into the database handle\<close>

text \<open>\<^verbatim>\<open>database->M(...)\<close>: the method of the handle runs on the engine state, and the
  call is recorded with what it returned.\<close>

definition database_OpenDatabase :: "'d Database \<Rightarrow> Options \<Rightarrow> 'd world \<Rightarrow> Status \<times> 'd world" where
  "database_OpenDatabase D options s =
     (let (st, d) = OpenDatabase D options (db s)
      in (st, emit (DbCall (OpenDatabase_call options) (ReplyStatus st)) (s\<lparr>db := d\<rparr>)))"

definition database_CloseDatabase :: "'d Database \<Rightarrow> 'd world \<Rightarrow> 'd world" where
  "database_CloseDatabase D s =
     emit (DbCall CloseDatabase_call ReplyVoid) (s\<lparr>db := CloseDatabase D (db s)\<rparr>)"

definition database_GetFromDatabase ::
  "'d Database \<Rightarrow> ReadOptions \<Rightarrow> Slice \<Rightarrow> addr \<Rightarrow> 'd world \<Rightarrow> Status \<times> 'd world" where
  "database_GetFromDatabase D options key val s =
     (let (st, bs, d) = GetFromDatabase D options key (mem s) (load (mem s) val) (db s)
      in (st, emit (DbCall (GetFromDatabase_call options key) (ReplyStatus st))
                (s\<lparr>db := d, mem := (mem s)[val := bs]\<rparr>)))"

definition database_PutToDatabase ::
  "'d Database \<Rightarrow> WriteOptions \<Rightarrow> Slice \<Rightarrow> Slice \<Rightarrow> 'd world \<Rightarrow> Status \<times> 'd world" where
  "database_PutToDatabase D options key val s =
     (let (st, d) = PutToDatabase D options key val (mem s) (db s)
      in (st, emit (DbCall (PutToDatabase_call options key val) (ReplyStatus st)) (s\<lparr>db := d\<rparr>)))"

definition database_DeleteFromDatabase ::
  "'d Database \<Rightarrow> WriteOptions \<Rightarrow> Slice \<Rightarrow> 'd world \<Rightarrow> Status \<times> 'd world" where
  "database_DeleteFromDatabase D options key s =
     (let (st, d) = DeleteFromDatabase D options key (mem s) (db s)
      in (st, emit (DbCall (DeleteFromDatabase_call options key) (ReplyStatus st)) (s\<lparr>db := d\<rparr>)))"

definition database_WriteBatchToDatabase ::
  "'d Database \<Rightarrow> WriteOptions \<Rightarrow> WriteBatch \<Rightarrow> 'd world \<Rightarrow> Status \<times> 'd world" where
  "database_WriteBatchToDatabase D options batch s =
     (let (st, d) = WriteBatchToDatabase D options batch (db s)
      in (st, emit (DbCall (WriteBatchToDatabase_call options batch) (ReplyStatus st)) (s\<lparr>db := d\<rparr>)))"

definition database_ApproximateSizeFromDatabase ::
  "'d Database \<Rightarrow> Range \<Rightarrow> 'd world \<Rightarrow> 64 word \<times> 'd world" where
  "database_ApproximateSizeFromDatabase D rng s =
     (let (n, d) = ApproximateSizeFromDatabase D rng (mem s) (db s)
      in (n, emit (DbCall (ApproximateSizeFromDatabase_call rng) (ReplySize n)) (s\<lparr>db := d\<rparr>)))"

subsection \<open>The worker classes\<close>

text \<open>
  The class hierarchy is \<^verbatim>\<open>AsyncWorker\<close> with subclasses \<^verbatim>\<open>OpenWorker\<close>,
  \<^verbatim>\<open>CloseWorker\<close>, \<^verbatim>\<open>IOWorker\<close> (with \<^verbatim>\<open>ReadWorker\<close> and \<^verbatim>\<open>DeleteWorker\<close>, the latter
  extended by \<^verbatim>\<open>WriteWorker\<close>), \<^verbatim>\<open>BatchWorker\<close> and \<^verbatim>\<open>ApproximateSizeWorker\<close>. The
  fields of the base class are a record; the fields a subclass adds are its variant.
  The \<^verbatim>\<open>database\<close> pointer every worker holds is the one handle of the world.
\<close>

datatype io_variant =
    ReadV ReadOptions bool addr
  | DeleteV WriteOptions
  | WriteV WriteOptions Slice

datatype variant =
    OpenV Options
  | CloseV
  | IOV Slice io_variant
  | BatchV WriteOptions WriteBatch
  | ApproximateSizeV Range "64 word"

record Worker =
  callback :: "napi_value option"
  status :: Status
  persistent :: "string \<rightharpoonup> napi_value"
  variant :: variant

text \<open>Modelled from the spec: the base class \<^verbatim>\<open>AsyncWorker\<close> (\<^verbatim>\<open>async.h\<close>) is not in
  this file. A worker is created holding its completion callback, with no error recorded
  in its status slot and no handle kept alive yet; \<^verbatim>\<open>SetStatus\<close> records a status in
  the slot.\<close>

definition AsyncWorker :: "napi_value \<Rightarrow> variant \<Rightarrow> Worker" where
  "AsyncWorker cb v = \<lparr>callback = Some cb, status = OK, persistent = Map.empty, variant = v\<rparr>"

definition SetStatus :: "Status \<Rightarrow> Worker \<Rightarrow> Worker" where
  "SetStatus st w = w\<lparr>status := st\<rparr>"

text \<open>\<^verbatim>\<open>SaveToPersistent\<close> and \<^verbatim>\<open>GetFromPersistent\<close> of the host binding: a handle is
  kept alive under a name, a later save under the same name replaces it, and a name never
  saved reads as undefined.\<close>

definition SaveToPersistent :: "string \<Rightarrow> napi_value \<Rightarrow> Worker \<Rightarrow> Worker" where
  "SaveToPersistent name v w = w\<lparr>persistent := (persistent w)(name \<mapsto> v)\<rparr>"

definition GetFromPersistent :: "Worker \<Rightarrow> string \<Rightarrow> napi_value" where
  "GetFromPersistent w name = (case persistent w name of Some v \<Rightarrow> v | None \<Rightarrow> JsUndefined)"

subsection \<open>Constructors\<close>

definition OpenWorker ::
  "napi_value \<Rightarrow> Cache_ptr \<Rightarrow> FilterPolicy_ptr \<Rightarrow> bool \<Rightarrow> bool \<Rightarrow> bool
     \<Rightarrow> 32 word \<Rightarrow> 32 word \<Rightarrow> 32 word \<Rightarrow> 32 word \<Rightarrow> Worker" where
  "OpenWorker cb blockCache filterPolicy createIfMissing errorIfExists compression_flag
       writeBufferSize blockSize maxOpenFiles blockRestartInterval =
     AsyncWorker cb (OpenV
       \<lparr>block_cache = blockCache,
        filter_policy = filterPolicy,
        create_if_missing = createIfMissing,
        error_if_exists = errorIfExists,
        compression = (if compression_flag then kSnappyCompression else kNoCompression),
        write_buffer_size = uint32_to_size_t writeBufferSize,
        block_size = uint32_to_size_t blockSize,
        max_open_files = uint32_to_int maxOpenFiles,
        block_restart_interval = uint32_to_int blockRestartInterval\<rparr>)"

definition CloseWorker :: "napi_value \<Rightarrow> Worker" where
  "CloseWorker cb = AsyncWorker cb CloseV"

text \<open>\<^verbatim>\<open>IOWorker\<close> is abstract: the last argument is the part its subclass adds.\<close>

definition IOWorker :: "napi_value \<Rightarrow> Slice \<Rightarrow> napi_value \<Rightarrow> io_variant \<Rightarrow> Worker" where
  "IOWorker cb key keyHandle sub =
     SaveToPersistent ''key'' keyHandle (AsyncWorker cb (IOV key sub))"

text \<open>The \<^verbatim>\<open>std::string value\<close> member of a read worker is constructed empty, in
  storage of its own.\<close>

definition ReadWorker ::
  "napi_value \<Rightarrow> Slice \<Rightarrow> bool \<Rightarrow> bool \<Rightarrow> napi_value \<Rightarrow> 'd world \<Rightarrow> Worker \<times> 'd world" where
  "ReadWorker cb key asBuffer fillCache keyHandle s =
     (let (val, s1) = alloc [] s;
          w = IOWorker cb key keyHandle (ReadV \<lparr>fill_cache = fillCache\<rparr> asBuffer val)
      in (SaveToPersistent ''key'' keyHandle w, s1))"

definition DeleteWorker :: "napi_value \<Rightarrow> Slice \<Rightarrow> bool \<Rightarrow> napi_value \<Rightarrow> Worker" where
  "DeleteWorker cb key sync_flag keyHandle =
     SaveToPersistent ''key'' keyHandle
       (IOWorker cb key keyHandle (DeleteV \<lparr>sync = sync_flag\<rparr>))"

text \<open>A write worker is a delete worker (same constructor, same \<^verbatim>\<open>options\<close> field)
  that adds the \<^verbatim>\<open>value\<close> slice.\<close>

definition WriteWorker ::
  "napi_value \<Rightarrow> Slice \<Rightarrow> Slice \<Rightarrow> bool \<Rightarrow> napi_value \<Rightarrow> napi_value \<Rightarrow> Worker" where
  "WriteWorker cb key val sync_flag keyHandle valueHandle =
     (let w = DeleteWorker cb key sync_flag keyHandle;
          w1 = w\<lparr>variant := (case variant w of
                               IOV k (DeleteV options) \<Rightarrow> IOV k (WriteV options val)
                             | v \<Rightarrow> v)\<rparr>
      in SaveToPersistent ''value'' valueHandle w1)"

definition BatchWorker :: "napi_value \<Rightarrow> WriteBatch \<Rightarrow> bool \<Rightarrow> Worker" where
  "BatchWorker cb batch sync_flag = AsyncWorker cb (BatchV \<lparr>sync = sync_flag\<rparr> batch)"

text \<open>The \<^verbatim>\<open>size\<close> member is not initialised by the constructor; it is written by
  \<^verbatim>\<open>Execute\<close> before anything reads it, and starts as 0 here.\<close>

definition ApproximateSizeWorker ::
  "napi_value \<Rightarrow> Slice \<Rightarrow> Slice \<Rightarrow> napi_value \<Rightarrow> napi_value \<Rightarrow> Worker" where
  "ApproximateSizeWorker cb start_key end_key startHandle endHandle =
     SaveToPersistent ''end'' endHandle
       (SaveToPersistent ''start'' startHandle
          (AsyncWorker cb (ApproximateSizeV (Range start_key end_key) 0)))"

subsection \<open>Execute\<close>

definition OpenWorker_Execute ::
  "'d Database \<Rightarrow> Worker \<Rightarrow> Options \<Rightarrow> 'd world \<Rightarrow> Worker \<times> 'd world" where
  "OpenWorker_Execute D w options s =
     (let (st, s1) = database_OpenDatabase D options s in (SetStatus st w, s1))"

definition CloseWorker_Execute :: "'d Database \<Rightarrow> Worker \<Rightarrow> 'd world \<Rightarrow> Worker \<times> 'd world" where
  "CloseWorker_Execute D w s = (w, database_CloseDatabase D s)"

definition ReadWorker_Execute ::
  "'d Database \<Rightarrow> Worker \<Rightarrow> ReadOptions \<Rightarrow> Slice \<Rightarrow> addr \<Rightarrow> 'd world \<Rightarrow> Worker \<times> 'd world" where
  "ReadWorker_Execute D w options key val s =
     (let (st, s1) = database_GetFromDatabase D options key val s in (SetStatus st w, s1))"

definition DeleteWorker_Execute ::
  "'d Database \<Rightarrow> Worker \<Rightarrow> WriteOptions \<Rightarrow> Slice \<Rightarrow> 'd world \<Rightarrow> Worker \<times> 'd world" where
  "DeleteWorker_Execute D w options key s =
     (let (st, s1) = database_DeleteFromDatabase D options key s in (SetStatus st w, s1))"

definition WriteWorker_Execute ::
  "'d Database \<Rightarrow> Worker \<Rightarrow> WriteOptions \<Rightarrow> Slice \<Rightarrow> Slice \<Rightarrow> 'd world \<Rightarrow> Worker \<times> 'd world" where
  "WriteWorker_Execute D w options key val s =
     (let (st, s1) = database_PutToDatabase D options key val s in (SetStatus st w, s1))"

definition BatchWorker_Execute ::
  "'d Database \<Rightarrow> Worker \<Rightarrow> WriteOptions \<Rightarrow> WriteBatch \<Rightarrow> 'd world \<Rightarrow> Worker \<times> 'd world" where
  "BatchWorker_Execute D w options batch s =
     (let (st, s1) = database_WriteBatchToDatabase D options batch s in (SetStatus st w, s1))"

definition ApproximateSizeWorker_Execute ::
  "'d Database \<Rightarrow> Worker \<Rightarrow> Range \<Rightarrow> 'd world \<Rightarrow> Worker \<times> 'd world" where
  "ApproximateSizeWorker_Execute D w rng s =
     (let (n, s1) = database_ApproximateSizeFromDatabase D rng s
      in (w\<lparr>variant := ApproximateSizeV rng n\<rparr>, s1))"

text \<open>The virtual call \<^verbatim>\<open>worker->Execute()\<close>: the class of the worker picks the method,
  which reads the fields of \<^verbatim>\<open>this\<close>.\<close>

definition Execute :: "'d Database \<Rightarrow> Worker \<Rightarrow> 'd world \<Rightarrow> Worker \<times> 'd world" where
  "Execute D w s =
     (case variant w of
        OpenV options \<Rightarrow> OpenWorker_Execute D w options s
      | CloseV \<Rightarrow> CloseWorker_Execute D w s
      | IOV key sub \<Rightarrow>
          (case sub of
             ReadV options asBuffer val \<Rightarrow> ReadWorker_Execute D w options key val s
           | DeleteV options \<Rightarrow> DeleteWorker_Execute D w options key s
           | WriteV options val \<Rightarrow> WriteWorker_Execute D w options key val s)
      | BatchV options batch \<Rightarrow> BatchWorker_Execute D w options batch s
      | ApproximateSizeV rng sz \<Rightarrow> ApproximateSizeWorker_Execute D w rng s)"

subsection \<open>Values built for the callback\<close>

text \<open>
  The conversion \<^verbatim>\<open>(double) size\<close> of an unsigned 64-bit integer. A double has a
  significand of 53 bits: a value below \<open>2 ^ 53\<close> converts exactly, a larger one loses
  its \<open>e\<close> lowest bits, where \<open>e\<close> is the number of bits beyond 53, and is rounded to the
  nearest multiple of \<open>2 ^ e\<close>, a tie going to the even significand.
\<close>

function excess_bits :: "nat \<Rightarrow> nat" where
  "excess_bits n = (if n < 2 ^ 53 then 0 else Suc (excess_bits (n div 2)))"
  by pat_completeness auto
termination
  by (relation "measure (\<lambda>n. n)") auto

declare excess_bits.simps [simp del]

definition double_of_uint64 :: "64 word \<Rightarrow> int" where
  "double_of_uint64 x =
     (let n = unat x; e = excess_bits n; q = n div 2 ^ e; r = n mod 2 ^ e
      in if 2 * r < 2 ^ e \<or> (2 * r = 2 ^ e \<and> even q)
         then int (q * 2 ^ e)
         else int ((q + 1) * 2 ^ e))"

text \<open>The non-negative integers that are doubles: a significand of at most 53 bits times
  a power of two (the exponent range of a double reaches far beyond 64 bits).\<close>

definition is_double :: "int \<Rightarrow> bool" where
  "is_double m \<longleftrightarrow> (\<exists>k j :: nat. k < 2 ^ 53 \<and> m = int (k * 2 ^ j))"

definition napi_create_number :: "int \<Rightarrow> napi_value" where
  "napi_create_number d = JsNumber d"

text \<open>\<^verbatim>\<open>Nan::CopyBuffer(data, size)\<close> of the host binding allocates a new buffer and
  copies \<^verbatim>\<open>size\<close> bytes from \<^verbatim>\<open>data\<close> into it; \<^verbatim>\<open>Nan::New<v8::String>(data, size)\<close>
  decodes \<^verbatim>\<open>size\<close> bytes at \<^verbatim>\<open>data\<close> into a string.\<close>

definition CopyBuffer :: "addr \<Rightarrow> nat \<Rightarrow> 'd world \<Rightarrow> napi_value \<times> 'd world" where
  "CopyBuffer p n s = (let (b, s1) = alloc (take n (load (mem s) p)) s in (JsBuffer b, s1))"

definition New_String :: "addr \<Rightarrow> nat \<Rightarrow> 'd world \<Rightarrow> napi_value" where
  "New_String p n s = JsString (take n (load (mem s) p))"

text \<open>\<^verbatim>\<open>value.data()\<close> and \<^verbatim>\<open>value.size()\<close> of a \<^verbatim>\<open>std::string\<close> stored at an
  address.\<close>

definition string_data :: "addr \<Rightarrow> addr" where
  "string_data val = val"

definition string_size :: "'d world \<Rightarrow> addr \<Rightarrow> nat" where
  "string_size s val = length (load (mem s) val)"

subsection \<open>Invoking the callback, releasing a carrier\<close>

text \<open>\<^verbatim>\<open>callback->Call(argc, argv)\<close>; through a \<^verbatim>\<open>NULL\<close> callback pointer the call
  reaches no function, which the trace records as such.\<close>

definition callback_Call :: "Worker \<Rightarrow> napi_value list \<Rightarrow> 'd world \<Rightarrow> 'd world" where
  "callback_Call w argv s =
     (case callback w of
        Some cb \<Rightarrow> emit (Call cb argv) s
      | None \<Rightarrow> emit (NullCall argv) s)"

text \<open>Modelled from the spec: \<^verbatim>\<open>DisposeStringOrBufferFromSlice\<close> (\<^verbatim>\<open>leveldown.h\<close>) is
  not in this file. It releases the buffer carrier made of a kept-alive handle and the
  slice taken from it; the release is an event.\<close>

definition DisposeStringOrBufferFromSlice :: "napi_value \<Rightarrow> Slice \<Rightarrow> 'd world \<Rightarrow> 'd world" where
  "DisposeStringOrBufferFromSlice handle sl s = emit (Dispose handle sl) s"

subsection \<open>HandleOKCallback\<close>

text \<open>Modelled from the spec: the callback methods of the base class (\<^verbatim>\<open>async.h\<close>) are
  not in this file. Every callback receives \<open>(error, result)\<close>: on success the error is
  null and, for a variant with no result, so is the result; on failure the result is null
  and the error carries the kind and the message of the recorded status.\<close>

definition AsyncWorker_HandleOKCallback :: "Worker \<Rightarrow> 'd world \<Rightarrow> 'd world" where
  "AsyncWorker_HandleOKCallback w s = callback_Call w [JsNull, JsNull] s"

definition AsyncWorker_HandleErrorCallback ::
  "Worker \<Rightarrow> error_kind \<Rightarrow> string \<Rightarrow> 'd world \<Rightarrow> 'd world" where
  "AsyncWorker_HandleErrorCallback w kind msg s = callback_Call w [JsError kind msg, JsNull] s"

definition ReadWorker_HandleOKCallback :: "Worker \<Rightarrow> bool \<Rightarrow> addr \<Rightarrow> 'd world \<Rightarrow> 'd world" where
  "ReadWorker_HandleOKCallback w asBuffer val s =
     (let (returnValue, s1) =
            (if asBuffer
             then CopyBuffer (string_data val) (string_size s val) s
             else (New_String (string_data val) (string_size s val) s, s))
      in callback_Call w [JsNull, returnValue] s1)"

definition ApproximateSizeWorker_HandleOKCallback ::
  "Worker \<Rightarrow> 64 word \<Rightarrow> 'd world \<Rightarrow> 'd world" where
  "ApproximateSizeWorker_HandleOKCallback w sz s =
     (let returnValue = napi_create_number (double_of_uint64 sz)
      in callback_Call w [JsNull, returnValue] s)"

text \<open>The virtual call \<^verbatim>\<open>HandleOKCallback()\<close>: only the read worker and the
  approximate-size worker override the method of the base class.\<close>

definition HandleOKCallback :: "Worker \<Rightarrow> 'd world \<Rightarrow> 'd world" where
  "HandleOKCallback w s =
     (case variant w of
        OpenV options \<Rightarrow> AsyncWorker_HandleOKCallback w s
      | CloseV \<Rightarrow> AsyncWorker_HandleOKCallback w s
      | IOV key sub \<Rightarrow>
          (case sub of
             ReadV options asBuffer val \<Rightarrow> ReadWorker_HandleOKCallback w asBuffer val s
           | DeleteV options \<Rightarrow> AsyncWorker_HandleOKCallback w s
           | WriteV options val \<Rightarrow> AsyncWorker_HandleOKCallback w s)
      | BatchV options batch \<Rightarrow> AsyncWorker_HandleOKCallback w s
      | ApproximateSizeV rng sz \<Rightarrow> ApproximateSizeWorker_HandleOKCallback w sz s)"

subsection \<open>WorkComplete\<close>

text \<open>Modelled from the spec: \<^verbatim>\<open>AsyncWorker::WorkComplete\<close> (\<^verbatim>\<open>async.h\<close>) is not in
  this file. It translates the recorded status into the callback's arguments: the success
  callback of the worker when no error is recorded, the error callback otherwise.\<close>

definition AsyncWorker_WorkComplete :: "Worker \<Rightarrow> 'd world \<Rightarrow> Worker \<times> 'd world" where
  "AsyncWorker_WorkComplete w s =
     (case status w of
        OK \<Rightarrow> (w, HandleOKCallback w s)
      | Failed kind msg \<Rightarrow> (w, AsyncWorker_HandleErrorCallback w kind msg s))"

text \<open>\<^verbatim>\<open>delete callback; callback = NULL;\<close> (deleting a null pointer does nothing).\<close>

definition delete_callback :: "Worker \<Rightarrow> 'd world \<Rightarrow> Worker \<times> 'd world" where
  "delete_callback w s =
     (case callback w of
        Some cb \<Rightarrow> (w\<lparr>callback := None\<rparr>, emit (DeleteCallback cb) s)
      | None \<Rightarrow> (w\<lparr>callback := None\<rparr>, s))"

definition CloseWorker_WorkComplete :: "Worker \<Rightarrow> 'd world \<Rightarrow> Worker \<times> 'd world" where
  "CloseWorker_WorkComplete w s =
     (let s1 = HandleOKCallback w s
      in delete_callback w s1)"

definition IOWorker_WorkComplete :: "Worker \<Rightarrow> Slice \<Rightarrow> 'd world \<Rightarrow> Worker \<times> 'd world" where
  "IOWorker_WorkComplete w key s =
     (let s1 = DisposeStringOrBufferFromSlice (GetFromPersistent w ''key'') key s
      in AsyncWorker_WorkComplete w s1)"

definition WriteWorker_WorkComplete ::
  "Worker \<Rightarrow> Slice \<Rightarrow> Slice \<Rightarrow> 'd world \<Rightarrow> Worker \<times> 'd world" where
  "WriteWorker_WorkComplete w key val s =
     (let s1 = DisposeStringOrBufferFromSlice (GetFromPersistent w ''value'') val s
      in IOWorker_WorkComplete w key s1)"

definition ApproximateSizeWorker_WorkComplete ::
  "Worker \<Rightarrow> Range \<Rightarrow> 'd world \<Rightarrow> Worker \<times> 'd world" where
  "ApproximateSizeWorker_WorkComplete w rng s =
     (let s1 = DisposeStringOrBufferFromSlice (GetFromPersistent w ''start'') (start rng) s;
          s2 = DisposeStringOrBufferFromSlice (GetFromPersistent w ''end'') (limit rng) s1
      in AsyncWorker_WorkComplete w s2)"

text \<open>The virtual call \<^verbatim>\<open>WorkComplete()\<close>: the close worker, the IO workers (the write
  worker with an override of its own) and the approximate-size worker override the method
  of the base class; the open and batch workers inherit it.\<close>

definition WorkComplete :: "Worker \<Rightarrow> 'd world \<Rightarrow> Worker \<times> 'd world" where
  "WorkComplete w s =
     (case variant w of
        OpenV options \<Rightarrow> AsyncWorker_WorkComplete w s
      | CloseV \<Rightarrow> CloseWorker_WorkComplete w s
      | IOV key sub \<Rightarrow>
          (case sub of
             ReadV options asBuffer val \<Rightarrow> IOWorker_WorkComplete w key s
           | DeleteV options \<Rightarrow> IOWorker_WorkComplete w key s
           | WriteV options val \<Rightarrow> WriteWorker_WorkComplete w key val s)
      | BatchV options batch \<Rightarrow> AsyncWorker_WorkComplete w s
      | ApproximateSizeV rng sz \<Rightarrow> ApproximateSizeWorker_WorkComplete w rng s)"

text \<open>Modelled from the spec: the dispatcher (the host's task queue) is not in this file.
  It runs \<^verbatim>\<open>Execute\<close> of a submitted worker, and then, whatever status that recorded,
  the completion of the worker.\<close>

definition AsyncQueueWorker :: "'d Database \<Rightarrow> Worker \<Rightarrow> 'd world \<Rightarrow> Worker \<times> 'd world" where
  "AsyncQueueWorker D w s = (let (w1, s1) = Execute D w s in WorkComplete w1 s1)"

subsection \<open>Reading the trace\<close>

text \<open>The carriers released, the callback invocations and the calls into the database
  handle that a trace holds, each in order.\<close>

fun disposals :: "event list \<Rightarrow> (napi_value \<times> Slice) list" where
  "disposals [] = []"
| "disposals (Dispose h sl # es) = (h, sl) # disposals es"
| "disposals (e # es) = disposals es"

fun invocations :: "event list \<Rightarrow> (napi_value option \<times> napi_value list) list" where
  "invocations [] = []"
| "invocations (Call cb argv # es) = (Some cb, argv) # invocations es"
| "invocations (NullCall argv # es) = (None, argv) # invocations es"
| "invocations (e # es) = invocations es"

fun db_calls :: "event list \<Rightarrow> (db_call \<times> db_reply) list" where
  "db_calls [] = []"
| "db_calls (DbCall c r # es) = (c, r) # db_calls es"
| "db_calls (e # es) = db_calls es"

text \<open>The events a step added to the trace \<open>old\<close>, given the trace after it.\<close>

definition added :: "event list \<Rightarrow> event list \<Rightarrow> event list" where
  "added old new = drop (length old) new"

text \<open>What "Execute calls into the database handle and records the resulting status in the
  status slot" says of the events an \<^verbatim>\<open>Execute\<close> added and of the status slot after it:
  there was one call, it returned a status, and the slot holds that status.\<close>

fun records_db_status :: "Status \<Rightarrow> event list \<Rightarrow> bool" where
  "records_db_status st [DbCall c (ReplyStatus r)] = (r = st)"
| "records_db_status st es = False"

subsection \<open>A database handle to run the workers against\<close>

text \<open>
  A small engine for concrete runs: the store is an association list from key bytes to
  value bytes, a get of an absent key fails with \<open>NotFound\<close> and leaves the value
  untouched, and the size estimate of a range is the number of bytes stored.
\<close>

type_synonym table = "(byte list \<times> byte list) list"

definition slice_bytes :: "memory \<Rightarrow> Slice \<Rightarrow> byte list" where
  "slice_bytes m sl = take (slice_size sl) (load m (slice_data sl))"

definition table_del :: "byte list \<Rightarrow> table \<Rightarrow> table" where
  "table_del k t = filter (\<lambda>p. fst p \<noteq> k) t"

fun apply_batch :: "WriteBatch \<Rightarrow> table \<Rightarrow> table" where
  "apply_batch [] t = t"
| "apply_batch (BatchPut k v # ops) t = apply_batch ops ((k, v) # table_del k t)"
| "apply_batch (BatchDel k # ops) t = apply_batch ops (table_del k t)"

definition table_db :: "table Database" where
  "table_db =
     \<lparr>OpenDatabase = (\<lambda>options t. (OK, t)),
      CloseDatabase = (\<lambda>t. t),
      GetFromDatabase = (\<lambda>options key m old t.
         case map_of t (slice_bytes m key) of
           Some v \<Rightarrow> (OK, v, t)
         | None \<Rightarrow> (Failed NotFound ''NotFound: '', old, t)),
      PutToDatabase = (\<lambda>options key val m t.
         (OK, (slice_bytes m key, slice_bytes m val) # table_del (slice_bytes m key) t)),
      DeleteFromDatabase = (\<lambda>options key m t. (OK, table_del (slice_bytes m key) t)),
      WriteBatchToDatabase = (\<lambda>options batch t. (OK, apply_batch batch t)),
      ApproximateSizeFromDatabase = (\<lambda>rng m t.
         (of_nat (sum_list (map (\<lambda>p. length (fst p) + length (snd p)) t)), t))\<rparr>"

text \<open>The same engine with a size estimate fixed in advance.\<close>

definition sized_db :: "64 word \<Rightarrow> table Database" where
  "sized_db n = table_db\<lparr>ApproximateSizeFromDatabase := (\<lambda>rng m t. (n, t))\<rparr>"

text \<open>A world whose memory holds the two one-byte keys \<open>a\<close> and \<open>b\<close> and the value
  \<open>xyz\<close>, and whose store maps \<open>a\<close> to \<open>xyz\<close>.\<close>

definition world0 :: "table world" where
  "world0 = \<lparr>db = [([97], [120, 121, 122])], mem = [[97], [98], [120, 121, 122]], trace = []\<rparr>"

definition key_a :: Slice where
  "key_a = \<lparr>slice_data = 0, slice_size = 1\<rparr>"

definition key_b :: Slice where
  "key_b = \<lparr>slice_data = 1, slice_size = 1\<rparr>"

section \<open>Properties\<close>

subsection \<open>Unfolding the model\<close>

lemmas db_defs = database_OpenDatabase_def database_CloseDatabase_def database_GetFromDatabase_def
  database_PutToDatabase_def database_DeleteFromDatabase_def database_WriteBatchToDatabase_def
  database_ApproximateSizeFromDatabase_def

lemmas ctor_defs = AsyncWorker_def OpenWorker_def CloseWorker_def IOWorker_def ReadWorker_def
  DeleteWorker_def WriteWorker_def BatchWorker_def ApproximateSizeWorker_def
  SaveToPersistent_def Range_def alloc_def

lemmas exec_defs = Execute_def OpenWorker_Execute_def CloseWorker_Execute_def ReadWorker_Execute_def
  DeleteWorker_Execute_def WriteWorker_Execute_def BatchWorker_Execute_def
  ApproximateSizeWorker_Execute_def SetStatus_def emit_def

lemmas complete_defs = WorkComplete_def AsyncWorker_WorkComplete_def CloseWorker_WorkComplete_def
  IOWorker_WorkComplete_def WriteWorker_WorkComplete_def ApproximateSizeWorker_WorkComplete_def
  delete_callback_def DisposeStringOrBufferFromSlice_def GetFromPersistent_def
  HandleOKCallback_def AsyncWorker_HandleOKCallback_def AsyncWorker_HandleErrorCallback_def
  ReadWorker_HandleOKCallback_def ApproximateSizeWorker_HandleOKCallback_def callback_Call_def
  CopyBuffer_def New_String_def string_data_def string_size_def napi_create_number_def

lemmas all_defs = exec_defs db_defs ctor_defs complete_defs AsyncQueueWorker_def

lemmas example_defs = table_db_def sized_db_def world0_def key_a_def key_b_def slice_bytes_def
  table_del_def

lemma added_append [simp]: "added xs (xs @ ys) = ys"
  by (simp add: added_def)

lemma added_nil [simp]: "added [] ys = ys"
  by (simp add: added_def)

lemma disposals_append: "disposals (xs @ ys) = disposals xs @ disposals ys"
  by (induction xs rule: disposals.induct) auto

lemma invocations_append: "invocations (xs @ ys) = invocations xs @ invocations ys"
  by (induction xs rule: invocations.induct) auto

lemma db_calls_append: "db_calls (xs @ ys) = db_calls xs @ db_calls ys"
  by (induction xs rule: db_calls.induct) auto

text \<open>What the constructor of the read worker builds: the value of the new worker gets
  the next free address.\<close>

lemma ReadWorker_eq:
  "ReadWorker cb key ab fc kh s =
     (\<lparr>callback = Some cb, status = OK, persistent = [''key'' \<mapsto> kh],
       variant = IOV key (ReadV \<lparr>fill_cache = fc\<rparr> ab (length (mem s)))\<rparr>,
      s\<lparr>mem := mem s @ [[]]\<rparr>)"
  by (simp add: ctor_defs)

subsection \<open>The conversions of the open options\<close>

lemma uint_uint32_to_size_t: "uint (uint32_to_size_t x) = uint x"
  by (simp add: uint32_to_size_t_def uint_up_ucast is_up)

lemma uint32_bounds: "0 \<le> uint (x :: 32 word) \<and> uint x < 4294967296"
  using uint_bounded [of x] by simp

lemma sint_32_shift: "sint (x :: 32 word) = (uint x + 2147483648) mod 4294967296 - 2147483648"
  by (simp add: sint_uint signed_take_bit_eq_take_bit_shift take_bit_eq_mod)

text \<open>The conversion to \<^verbatim>\<open>int\<close> reads the same 32 bits in two's complement.\<close>

lemma uint32_to_int_sint: "uint32_to_int x = sint x"
proof (cases "uint x < 2147483648")
  case True
  have "0 \<le> uint x + 2147483648"
    using uint32_bounds [of x] by simp
  moreover from True have "uint x + 2147483648 < 4294967296"
    by simp
  ultimately have "(uint x + 2147483648) mod 4294967296 = uint x + 2147483648"
    by (rule mod_pos_pos_trivial)
  then have "sint x = uint x"
    by (simp only: sint_32_shift)
  with True show ?thesis
    by (simp add: uint32_to_int_def)
next
  case False
  define y where "y = uint x - 2147483648"
  from False have y0: "0 \<le> y"
    by (simp add: y_def)
  from uint32_bounds [of x] have y1: "y < 4294967296"
    by (simp add: y_def)
  have "uint x + 2147483648 = y + 4294967296"
    by (simp add: y_def)
  then have "(uint x + 2147483648) mod 4294967296 = (y + 4294967296) mod 4294967296"
    by (simp only:)
  also have "\<dots> = y mod 4294967296"
    by (rule mod_add_self2)
  also from y0 y1 have "\<dots> = y"
    by (rule mod_pos_pos_trivial)
  finally have "sint x = y - 2147483648"
    by (simp only: sint_32_shift)
  then have "sint x = uint x - 4294967296"
    by (simp add: y_def)
  with False show ?thesis
    by (simp add: uint32_to_int_def)
qed

subsection \<open>The conversion to a double\<close>

lemma excess_bits_small: "n < 2 ^ 53 \<Longrightarrow> excess_bits n = 0"
  by (subst excess_bits.simps) simp

lemma excess_bits_large: "\<not> n < 2 ^ 53 \<Longrightarrow> excess_bits n = Suc (excess_bits (n div 2))"
  by (subst excess_bits.simps) simp

lemma excess_bits_2_53: "excess_bits 9007199254740992 = 1"
  by (simp add: excess_bits_small excess_bits_large)

text \<open>Up to \<open>2 ^ 53\<close> the conversion is exact.\<close>

lemma double_of_uint64_exact:
  assumes "unat x \<le> 2 ^ 53"
  shows "double_of_uint64 x = uint x"
proof (cases "unat x < 2 ^ 53")
  case True
  then have "excess_bits (unat x) = 0"
    by (rule excess_bits_small)
  then show ?thesis
    by (simp add: double_of_uint64_def Let_def)
next
  case False
  with assms have n: "unat x = 9007199254740992"
    by simp
  have u: "uint x = 9007199254740992"
    using n by (simp add: uint_nat)
  show ?thesis
    unfolding double_of_uint64_def Let_def n excess_bits_2_53 u by simp
qed

text \<open>In general the conversion is off by at most half of \<open>2 ^ e\<close>, where \<open>e\<close> is the
  number of bits beyond 53.\<close>

lemma double_of_uint64_nearest:
  "2 * \<bar>double_of_uint64 x - uint x\<bar> \<le> 2 ^ excess_bits (unat x)"
proof -
  define n where "n = unat x"
  define e where "e = excess_bits n"
  define p :: nat where "p = 2 ^ e"
  define q where "q = n div p"
  define r where "r = n mod p"
  have "n = q * p + r"
    unfolding q_def r_def by (rule div_mult_mod_eq [symmetric])
  then have n: "int n = int (q * p) + int r"
    by simp
  have "0 < p"
    by (simp add: p_def)
  then have r: "r < p"
    by (simp add: r_def)
  have d: "double_of_uint64 x =
      (if 2 * r < p \<or> (2 * r = p \<and> even q) then int (q * p) else int ((q + 1) * p))"
    by (simp add: double_of_uint64_def Let_def n_def e_def p_def q_def r_def)
  have "2 * \<bar>double_of_uint64 x - int n\<bar> \<le> int p"
  proof (cases "2 * r < p \<or> (2 * r = p \<and> even q)")
    case True
    then have "double_of_uint64 x = int (q * p)"
      by (simp only: d if_True)
    with n have "double_of_uint64 x - int n = - int r"
      by simp
    then have a: "\<bar>double_of_uint64 x - int n\<bar> = int r"
      by simp
    from True have "2 * r \<le> p"
      by linarith
    then have "2 * int r \<le> int p"
      by linarith
    then show ?thesis
      unfolding a .
  next
    case False
    then have "double_of_uint64 x = int ((q + 1) * p)"
      by (simp only: d if_False)
    then have "double_of_uint64 x = int (q * p) + int p"
      by (simp only: add_mult_distrib mult_1 of_nat_add)
    with n have "double_of_uint64 x - int n = int p - int r"
      by linarith
    moreover from r have "int r < int p"
      by (simp only: of_nat_less_iff)
    ultimately have a: "\<bar>double_of_uint64 x - int n\<bar> = int p - int r"
      by linarith
    from False have "\<not> 2 * r < p"
      by blast
    then have "int p \<le> 2 * int r"
      by linarith
    then show ?thesis
      unfolding a by arith
  qed
  then show ?thesis
    unfolding p_def e_def n_def by simp
qed

text \<open>The significand that is left after the excess bits are dropped has at most 53
  bits, and exactly 53 when bits were dropped.\<close>

lemma excess_bits_div_less: "n div 2 ^ excess_bits n < 2 ^ 53"
proof (induction n rule: excess_bits.induct)
  case (1 n)
  show ?case
  proof (cases "n < 2 ^ 53")
    case True
    then show ?thesis
      by (simp add: excess_bits_small)
  next
    case False
    then have "n div 2 div 2 ^ excess_bits (n div 2) < 2 ^ 53"
      by (rule "1.IH")
    then show ?thesis
      using False by (simp add: excess_bits_large div_mult2_eq)
  qed
qed

lemma excess_bits_div_ge:
  "\<not> n < 2 ^ 53 \<Longrightarrow> 2 ^ 52 \<le> n div 2 ^ excess_bits n"
proof (induction n rule: excess_bits.induct)
  case (1 n)
  from "1.prems" have e: "excess_bits n = Suc (excess_bits (n div 2))"
    by (rule excess_bits_large)
  show ?case
  proof (cases "n div 2 < 2 ^ 53")
    case True
    then have "excess_bits (n div 2) = 0"
      by (rule excess_bits_small)
    moreover from "1.prems" have "(2::nat) ^ 52 \<le> n div 2"
      by simp
    ultimately show ?thesis
      by (simp add: e)
  next
    case False
    with "1.prems" have "2 ^ 52 \<le> n div 2 div 2 ^ excess_bits (n div 2)"
      by (rule "1.IH")
    then show ?thesis
      by (simp add: e div_mult2_eq)
  qed
qed

lemma excess_bits_pos: "\<not> n < 2 ^ 53 \<Longrightarrow> 0 < excess_bits n"
  by (simp add: excess_bits_large)

text \<open>The two candidates of the rounding, and which one is taken.\<close>

lemma double_of_uint64_cases:
  fixes x :: "64 word"
  defines "n \<equiv> unat x"
  defines "p \<equiv> (2::nat) ^ excess_bits n"
  defines "q \<equiv> n div p"
  defines "r \<equiv> n mod p"
  shows "(double_of_uint64 x = int (q * p) \<and> 2 * r \<le> p) \<or>
         (double_of_uint64 x = int ((q + 1) * p) \<and> p \<le> 2 * r)"
proof -
  have d: "double_of_uint64 x =
      (if 2 * r < p \<or> (2 * r = p \<and> even q) then int (q * p) else int ((q + 1) * p))"
    by (simp add: double_of_uint64_def Let_def n_def p_def q_def r_def)
  show ?thesis
  proof (cases "2 * r < p \<or> (2 * r = p \<and> even q)")
    case True
    then have "double_of_uint64 x = int (q * p)"
      by (simp only: d if_True)
    moreover from True have "2 * r \<le> p"
      by arith
    ultimately show ?thesis
      by blast
  next
    case False
    then have "double_of_uint64 x = int ((q + 1) * p)"
      by (simp only: d if_False)
    moreover from False have "p \<le> 2 * r"
      by arith
    ultimately show ?thesis
      by blast
  qed
qed


text \<open>The conversion yields a double.\<close>

lemma double_of_uint64_is_double: "is_double (double_of_uint64 x)"
proof -
  define n where "n = unat x"
  define e where "e = excess_bits n"
  define p where "p = (2::nat) ^ e"
  define q where "q = n div p"
  have q: "q < 2 ^ 53"
    unfolding q_def p_def e_def by (rule excess_bits_div_less)
  from double_of_uint64_cases [of x]
  consider "double_of_uint64 x = int (q * p)" | "double_of_uint64 x = int ((q + 1) * p)"
    unfolding q_def p_def e_def n_def by blast
  then show ?thesis
  proof cases
    case 1
    with q show ?thesis
      unfolding is_double_def p_def by blast
  next
    case 2
    show ?thesis
    proof (cases "q + 1 < 2 ^ 53")
      case True
      with 2 show ?thesis
        unfolding is_double_def p_def by blast
    next
      case False
      with q have "q + 1 = 2 ^ 53"
        by simp
      then have eq: "(q + 1) * p = 2 ^ 52 * 2 ^ Suc e"
        by (simp add: p_def)
      from 2 have "double_of_uint64 x = int (2 ^ 52 * 2 ^ Suc e)"
        unfolding eq .
      moreover have "(2::nat) ^ 52 < 2 ^ 53"
        by simp
      ultimately show ?thesis
        unfolding is_double_def by blast
    qed
  qed
qed

text \<open>No double lies strictly between the two candidates of the rounding.\<close>

lemma no_double_between:
  fixes n k j :: nat
  defines "p \<equiv> (2::nat) ^ excess_bits n"
  defines "q \<equiv> n div p"
  assumes big: "\<not> n < 2 ^ 53" and k: "k < 2 ^ 53"
  shows "k * 2 ^ j \<le> q * p \<or> (q + 1) * p \<le> k * 2 ^ j"
proof (cases "j < excess_bits n")
  case True
  have "k * 2 ^ j \<le> 2 ^ 53 * 2 ^ j"
    using k by simp
  also have "\<dots> = 2 ^ (53 + j)"
    by (simp add: power_add)
  also from True have "\<dots> \<le> 2 ^ (52 + excess_bits n)"
    by (intro power_increasing) simp_all
  also have "\<dots> = 2 ^ 52 * p"
    by (simp add: power_add p_def)
  also from big have "\<dots> \<le> q * p"
    unfolding q_def p_def by (intro mult_right_mono excess_bits_div_ge) simp_all
  finally show ?thesis
    by blast
next
  case False
  define c where "c = k * 2 ^ (j - excess_bits n)"
  from False have "(2::nat) ^ j = 2 ^ (j - excess_bits n) * 2 ^ excess_bits n"
    by (simp add: power_add [symmetric])
  then have kc: "k * 2 ^ j = c * p"
    by (simp add: c_def p_def)
  show ?thesis
  proof (cases "c \<le> q")
    case True
    then have "c * p \<le> q * p"
      by (rule mult_right_mono) simp
    with kc show ?thesis
      by simp
  next
    case False
    then have "q + 1 \<le> c"
      by simp
    then have "(q + 1) * p \<le> c * p"
      by (rule mult_right_mono) simp
    with kc show ?thesis
      by simp
  qed
qed

text \<open>No double is nearer to the integer than the one the conversion yields.\<close>

lemma double_of_uint64_no_nearer:
  assumes m: "is_double m"
  shows "\<bar>double_of_uint64 x - uint x\<bar> \<le> \<bar>m - uint x\<bar>"
proof (cases "unat x < 2 ^ 53")
  case True
  then have "double_of_uint64 x = uint x"
    by (intro double_of_uint64_exact) simp
  then show ?thesis
    by simp
next
  case False
  define n where "n = unat x"
  define p where "p = (2::nat) ^ excess_bits n"
  define q where "q = n div p"
  define r where "r = n mod p"
  from m obtain k j :: nat where k: "k < 2 ^ 53" and mk: "m = int (k * 2 ^ j)"
    unfolding is_double_def by blast
  have "n = q * p + r"
    unfolding q_def r_def by (rule div_mult_mod_eq [symmetric])
  then have n: "int n = int (q * p) + int r"
    by simp
  have u: "uint x = int n"
    by (simp add: n_def)
  have "0 < p"
    by (simp add: p_def)
  then have "r < p"
    by (simp add: r_def)
  then have r: "int r < int p" and r0: "0 \<le> int r"
    by simp_all
  from False k have "k * 2 ^ j \<le> q * p \<or> (q + 1) * p \<le> k * 2 ^ j"
    unfolding q_def p_def n_def by (rule no_double_between)
  then have gap: "m \<le> int (q * p) \<or> int (q * p) + int p \<le> m"
  proof
    assume "k * 2 ^ j \<le> q * p"
    then have "int (k * 2 ^ j) \<le> int (q * p)"
      by (simp only: of_nat_le_iff)
    then show ?thesis
      by (simp only: mk) blast
  next
    assume "(q + 1) * p \<le> k * 2 ^ j"
    then have "int ((q + 1) * p) \<le> int (k * 2 ^ j)"
      by (simp only: of_nat_le_iff)
    moreover have "int ((q + 1) * p) = int (q * p) + int p"
      by (simp only: add_mult_distrib mult_1 of_nat_add)
    ultimately show ?thesis
      by (simp only: mk) simp
  qed
  from double_of_uint64_cases [of x]
  have "(double_of_uint64 x = int (q * p) \<and> 2 * int r \<le> int p) \<or>
        (double_of_uint64 x = int (q * p) + int p \<and> int p \<le> 2 * int r)"
  proof
    assume a: "double_of_uint64 x = int (unat x div 2 ^ excess_bits (unat x) * 2 ^ excess_bits (unat x)) \<and>
      2 * (unat x mod 2 ^ excess_bits (unat x)) \<le> 2 ^ excess_bits (unat x)"
    then have "double_of_uint64 x = int (q * p)" and "2 * r \<le> p"
      unfolding q_def p_def r_def n_def by simp_all
    then show ?thesis
      by simp
  next
    assume a: "double_of_uint64 x =
        int ((unat x div 2 ^ excess_bits (unat x) + 1) * 2 ^ excess_bits (unat x)) \<and>
      2 ^ excess_bits (unat x) \<le> 2 * (unat x mod 2 ^ excess_bits (unat x))"
    then have "double_of_uint64 x = int ((q + 1) * p)" and "p \<le> 2 * r"
      unfolding q_def p_def r_def n_def by simp_all
    moreover have "int ((q + 1) * p) = int (q * p) + int p"
      by (simp only: add_mult_distrib mult_1 of_nat_add)
    ultimately show ?thesis
      by simp
  qed
  with gap n r r0 show ?thesis
    unfolding u by arith
qed

lemma double_of_uint64_2_53_plus_1: "double_of_uint64 9007199254740993 = 9007199254740992"
  by (simp add: double_of_uint64_def excess_bits_small excess_bits_large Let_def)

subsection \<open>Constructors\<close>

text \<open>
  Claim C4, as amended. Whatever open options the constructor of the open worker is given,
  the one call that its \<^verbatim>\<open>Execute\<close> makes is \<^verbatim>\<open>OpenDatabase\<close> with an options struct
  that carries: the cache, the filter policy, \<open>createIfMissing\<close> and \<open>errorIfExists\<close>
  unchanged; Snappy compression when the compression flag is true, no compression when it
  is false; \<open>writeBufferSize\<close> and \<open>blockSize\<close> widened to \<^verbatim>\<open>size_t\<close>, their values
  unchanged; \<open>maxOpenFiles\<close> and \<open>blockRestartInterval\<close> converted to the engine's
  \<^verbatim>\<open>int\<close> fields, which is the two's complement reading of the same 32 bits: the value
  unchanged when it is below \<open>2 ^ 31\<close>, the value less \<open>2 ^ 32\<close> otherwise.
\<close>

theorem open_worker_forwards_options:
  "map fst (db_calls (added (trace s)
      (trace (snd (Execute D (OpenWorker cb bc fp cim eie cflag wbs bs mof bri) s))))) =
   [OpenDatabase_call
      \<lparr>block_cache = bc, filter_policy = fp, create_if_missing = cim, error_if_exists = eie,
       compression = (if cflag then kSnappyCompression else kNoCompression),
       write_buffer_size = uint32_to_size_t wbs, block_size = uint32_to_size_t bs,
       max_open_files = uint32_to_int mof,
       block_restart_interval = uint32_to_int bri\<rparr>] \<and>
   uint (uint32_to_size_t wbs) = uint wbs \<and>
   uint (uint32_to_size_t bs) = uint bs \<and>
   uint32_to_int mof = sint mof \<and>
   uint32_to_int bri = sint bri \<and>
   uint32_to_int mof = (if uint mof < 2 ^ 31 then uint mof else uint mof - 2 ^ 32) \<and>
   uint32_to_int bri = (if uint bri < 2 ^ 31 then uint bri else uint bri - 2 ^ 32)"
proof -
  have "map fst (db_calls (added (trace s)
      (trace (snd (Execute D (OpenWorker cb bc fp cim eie cflag wbs bs mof bri) s))))) =
   [OpenDatabase_call
      \<lparr>block_cache = bc, filter_policy = fp, create_if_missing = cim, error_if_exists = eie,
       compression = (if cflag then kSnappyCompression else kNoCompression),
       write_buffer_size = uint32_to_size_t wbs, block_size = uint32_to_size_t bs,
       max_open_files = uint32_to_int mof,
       block_restart_interval = uint32_to_int bri\<rparr>]"
    by (simp add: exec_defs db_defs ctor_defs Let_def split: prod.splits)
  moreover have "uint32_to_int mof = (if uint mof < 2 ^ 31 then uint mof else uint mof - 2 ^ 32)"
    and "uint32_to_int bri = (if uint bri < 2 ^ 31 then uint bri else uint bri - 2 ^ 32)"
    by (simp_all only: uint32_to_int_def)
  ultimately show ?thesis
    using uint_uint32_to_size_t [of wbs] uint_uint32_to_size_t [of bs]
      uint32_to_int_sint [of mof] uint32_to_int_sint [of bri]
    by blast
qed

text \<open>The claim as first stated, every value forwarded unchanged, fails at
  \<open>maxOpenFiles = 4294967295\<close>: the engine's \<^verbatim>\<open>int\<close> field receives \<open>-1\<close>.\<close>

theorem open_worker_max_open_files_wraps:
  "map fst (db_calls (added (trace world0) (trace (snd
      (Execute table_db
         (OpenWorker (JsObject 7) 0 0 True False True 4194304 4096 4294967295 16) world0))))) =
   [OpenDatabase_call
      \<lparr>block_cache = 0, filter_policy = 0, create_if_missing = True, error_if_exists = False,
       compression = kSnappyCompression, write_buffer_size = 4194304, block_size = 4096,
       max_open_files = - 1, block_restart_interval = 16\<rparr>] \<and>
   map fst (db_calls (added (trace world0) (trace (snd
      (Execute table_db
         (OpenWorker (JsObject 7) 0 0 True False True 4194304 4096 4294967295 16) world0))))) \<noteq>
   [OpenDatabase_call
      \<lparr>block_cache = 0, filter_policy = 0, create_if_missing = True, error_if_exists = False,
       compression = kSnappyCompression, write_buffer_size = 4194304, block_size = 4096,
       max_open_files = uint (4294967295 :: 32 word), block_restart_interval = 16\<rparr>]"
  by (simp add: exec_defs db_defs ctor_defs example_defs uint32_to_int_def uint32_to_size_t_def
        Let_def)

text \<open>
  Claim C8. For every value of the sync flag, the write worker gets its write options from
  the constructor of the delete worker, which it extends: both workers hold a
  write-options struct whose \<open>sync\<close> field is the flag, and those are the options their
  \<^verbatim>\<open>Execute\<close> hands to \<^verbatim>\<open>DeleteFromDatabase\<close> and to \<^verbatim>\<open>PutToDatabase\<close>.
\<close>

theorem write_and_delete_share_write_options:
  "variant (DeleteWorker cb key sflag kh) = IOV key (DeleteV \<lparr>sync = sflag\<rparr>) \<and>
   variant (WriteWorker cb key val sflag kh vh) = IOV key (WriteV \<lparr>sync = sflag\<rparr> val) \<and>
   WriteWorker cb key val sflag kh vh =
     SaveToPersistent ''value'' vh
       ((DeleteWorker cb key sflag kh)\<lparr>variant := IOV key (WriteV \<lparr>sync = sflag\<rparr> val)\<rparr>) \<and>
   map fst (db_calls (added (trace s) (trace (snd (Execute D (DeleteWorker cb key sflag kh) s))))) =
     [DeleteFromDatabase_call \<lparr>sync = sflag\<rparr> key] \<and>
   map fst (db_calls (added (trace s)
       (trace (snd (Execute D (WriteWorker cb key val sflag kh vh) s))))) =
     [PutToDatabase_call \<lparr>sync = sflag\<rparr> key val]"
  by (simp add: exec_defs db_defs ctor_defs Let_def split: prod.splits)

subsection \<open>Execute\<close>

text \<open>
  Claim C2, as amended. The \<^verbatim>\<open>Execute\<close> of the open, read, delete, write and batch
  workers makes one call into the database handle and leaves the status that call
  returned in the status slot. The \<^verbatim>\<open>Execute\<close> of the close and approximate-size workers
  also makes one call into the database handle, but that call returns no status (nothing
  for close, the size estimate for approximate-size, which is stored in the \<^verbatim>\<open>size\<close>
  field) and the status slot is left as the constructor set it.
\<close>

theorem execute_records_status_where_the_call_returns_one:
  fixes D :: "'d Database" and s :: "'d world"
    and cb bc fp cim eie cflag wbs bs mof bri key ab fc kh sflag val vh batch k1 k2 h1 h2
  defines "eo \<equiv> Execute D (OpenWorker cb bc fp cim eie cflag wbs bs mof bri) s"
  defines "er \<equiv> Execute D (fst (ReadWorker cb key ab fc kh s)) (snd (ReadWorker cb key ab fc kh s))"
  defines "ed \<equiv> Execute D (DeleteWorker cb key sflag kh) s"
  defines "ew \<equiv> Execute D (WriteWorker cb key val sflag kh vh) s"
  defines "eb \<equiv> Execute D (BatchWorker cb batch sflag) s"
  defines "est \<equiv> ApproximateSizeFromDatabase D (Range k1 k2) (mem s) (db s)"
  shows
  "records_db_status (status (fst eo)) (added (trace s) (trace (snd eo))) \<and>
   map fst (db_calls (added (trace s) (trace (snd eo)))) =
     [OpenDatabase_call
        \<lparr>block_cache = bc, filter_policy = fp, create_if_missing = cim, error_if_exists = eie,
         compression = (if cflag then kSnappyCompression else kNoCompression),
         write_buffer_size = uint32_to_size_t wbs, block_size = uint32_to_size_t bs,
         max_open_files = uint32_to_int mof,
         block_restart_interval = uint32_to_int bri\<rparr>] \<and>
   records_db_status (status (fst er)) (added (trace s) (trace (snd er))) \<and>
   map fst (db_calls (added (trace s) (trace (snd er)))) =
     [GetFromDatabase_call \<lparr>fill_cache = fc\<rparr> key] \<and>
   records_db_status (status (fst ed)) (added (trace s) (trace (snd ed))) \<and>
   map fst (db_calls (added (trace s) (trace (snd ed)))) =
     [DeleteFromDatabase_call \<lparr>sync = sflag\<rparr> key] \<and>
   records_db_status (status (fst ew)) (added (trace s) (trace (snd ew))) \<and>
   map fst (db_calls (added (trace s) (trace (snd ew)))) =
     [PutToDatabase_call \<lparr>sync = sflag\<rparr> key val] \<and>
   records_db_status (status (fst eb)) (added (trace s) (trace (snd eb))) \<and>
   map fst (db_calls (added (trace s) (trace (snd eb)))) =
     [WriteBatchToDatabase_call \<lparr>sync = sflag\<rparr> batch] \<and>
   Execute D (CloseWorker cb) s =
     (CloseWorker cb,
      s\<lparr>db := CloseDatabase D (db s),
        trace := trace s @ [DbCall CloseDatabase_call ReplyVoid]\<rparr>) \<and>
   Execute D (ApproximateSizeWorker cb k1 k2 h1 h2) s =
     ((ApproximateSizeWorker cb k1 k2 h1 h2)\<lparr>variant := ApproximateSizeV (Range k1 k2) (fst est)\<rparr>,
      s\<lparr>db := snd est,
        trace := trace s @
          [DbCall (ApproximateSizeFromDatabase_call (Range k1 k2)) (ReplySize (fst est))]\<rparr>)"
  unfolding eo_def er_def ed_def ew_def eb_def est_def
  by (simp add: exec_defs db_defs ctor_defs Let_def split: prod.splits)

text \<open>The claim as first stated, for every variant, fails at the close worker: its
  \<^verbatim>\<open>Execute\<close> calls \<^verbatim>\<open>CloseDatabase\<close>, which returns nothing, and records no status.\<close>

theorem close_execute_records_no_status:
  "\<not> records_db_status
       (status (fst (Execute table_db (CloseWorker (JsObject 7)) world0)))
       (added (trace world0) (trace (snd (Execute table_db (CloseWorker (JsObject 7)) world0))))"
  by (simp add: exec_defs db_defs ctor_defs example_defs)

subsection \<open>Completion\<close>

text \<open>
  Claim C9. The completion of a close worker, whatever status its status slot holds,
  invokes the callback exactly once, with a null error (and a null result), and then
  deletes the callback object and clears the worker's pointer to it; nothing else happens.
\<close>

theorem close_complete_calls_back_once_then_releases:
  "WorkComplete ((CloseWorker cb)\<lparr>status := st\<rparr>) s =
     ((CloseWorker cb)\<lparr>status := st, callback := None\<rparr>,
      s\<lparr>trace := trace s @ [Call cb [JsNull, JsNull], DeleteCallback cb]\<rparr>)"
  by (simp add: complete_defs ctor_defs emit_def)

text \<open>
  Claim C1. For every worker class and every database handle (so for every outcome of
  \<^verbatim>\<open>Execute\<close>, success or failure), the completion that follows \<^verbatim>\<open>Execute\<close> releases
  exactly the carriers the worker was built with, each one once: none for the open, close
  and batch workers, the key carrier for the read and delete workers, the value carrier
  and the key carrier for the write worker, the start and end carriers for the
  approximate-size worker.
\<close>

theorem complete_releases_each_carrier_once:
  "disposals (added (trace s) (trace (snd
      (AsyncQueueWorker D (OpenWorker cb bc fp cim eie cflag wbs bs mof bri) s)))) = [] \<and>
   disposals (added (trace s) (trace (snd (AsyncQueueWorker D (CloseWorker cb) s)))) = [] \<and>
   disposals (added (trace s) (trace (snd
      (AsyncQueueWorker D (fst (ReadWorker cb key ab fc kh s)) (snd (ReadWorker cb key ab fc kh s))))))
      = [(kh, key)] \<and>
   disposals (added (trace s) (trace (snd (AsyncQueueWorker D (DeleteWorker cb key sflag kh) s))))
      = [(kh, key)] \<and>
   disposals (added (trace s) (trace (snd (AsyncQueueWorker D (WriteWorker cb key val sflag kh vh) s))))
      = [(vh, val), (kh, key)] \<and>
   disposals (added (trace s) (trace (snd (AsyncQueueWorker D (BatchWorker cb batch sflag) s)))) = [] \<and>
   disposals (added (trace s) (trace (snd
      (AsyncQueueWorker D (ApproximateSizeWorker cb k1 k2 h1 h2) s)))) = [(h1, k1), (h2, k2)]"
  by (simp add: all_defs Let_def split: prod.splits Status.splits)

subsection \<open>Reads\<close>

text \<open>What the \<^verbatim>\<open>Execute\<close> of a read worker leaves behind: the status that
  \<^verbatim>\<open>GetFromDatabase\<close> returned, and in the worker's value the bytes it wrote there.\<close>

lemma read_execute_stores_status_and_value:
  fixes D :: "'d Database" and s :: "'d world" and cb key ab fc kh
  defines "e \<equiv> Execute D (fst (ReadWorker cb key ab fc kh s)) (snd (ReadWorker cb key ab fc kh s))"
  defines "got \<equiv> GetFromDatabase D \<lparr>fill_cache = fc\<rparr> key (mem s @ [[]]) [] (db s)"
  shows "status (fst e) = fst got \<and> load (mem (snd e)) (length (mem s)) = fst (snd got)"
  unfolding e_def got_def ReadWorker_eq
  by (simp add: exec_defs db_defs load_def Let_def split: prod.splits)

text \<open>
  Claim C7. For every read whose \<^verbatim>\<open>Execute\<close> recorded success, the completion invokes
  the callback once, with a null error as first argument and the value as second: a
  buffer holding the value bytes when \<open>asBuffer\<close> is true, a string decoded from the value
  bytes when it is false.
\<close>

theorem read_success_delivers_buffer_or_string:
  fixes D :: "'d Database" and s :: "'d world" and cb key ab fc kh
  defines "w \<equiv> fst (ReadWorker cb key ab fc kh s)"
      and "s1 \<equiv> snd (ReadWorker cb key ab fc kh s)"
  defines "e \<equiv> Execute D w s1"
  defines "fin \<equiv> AsyncQueueWorker D w s1"
  defines "bytes \<equiv> load (mem (snd e)) (length (mem s))"
  assumes ok: "status (fst e) = OK"
  shows "variant w = IOV key (ReadV \<lparr>fill_cache = fc\<rparr> ab (length (mem s))) \<and>
         invocations (added (trace s1) (trace (snd fin))) =
           [(Some cb, [JsNull, if ab then JsBuffer (length (mem (snd e))) else JsString bytes])] \<and>
         (if ab then load (mem (snd fin)) (length (mem (snd e))) = bytes
          else mem (snd fin) = mem (snd e))"
  using ok unfolding w_def s1_def e_def fin_def bytes_def ReadWorker_eq
  by (simp add: exec_defs db_defs complete_defs AsyncQueueWorker_def alloc_def load_def nth_append
        Let_def split: prod.splits Status.splits)

text \<open>A run of the theorem: reading the key \<open>a\<close> as a string from a store that maps it
  to \<open>xyz\<close>.\<close>

theorem read_success_string_run:
  "status (fst (Execute table_db
       (fst (ReadWorker (JsObject 7) key_a False False (JsObject 8) world0))
       (snd (ReadWorker (JsObject 7) key_a False False (JsObject 8) world0)))) = OK \<and>
   invocations (added (trace (snd (ReadWorker (JsObject 7) key_a False False (JsObject 8) world0)))
     (trace (snd (AsyncQueueWorker table_db
       (fst (ReadWorker (JsObject 7) key_a False False (JsObject 8) world0))
       (snd (ReadWorker (JsObject 7) key_a False False (JsObject 8) world0)))))) =
     [(Some (JsObject 7), [JsNull, JsString [120, 121, 122]])]"
proof -
  let ?w = "fst (ReadWorker (JsObject 7) key_a False False (JsObject 8) world0)"
  let ?s1 = "snd (ReadWorker (JsObject 7) key_a False False (JsObject 8) world0)"
  have h: "status (fst (Execute table_db ?w ?s1)) = OK"
    by (simp add: ReadWorker_eq exec_defs db_defs example_defs load_def Let_def)
  have b: "load (mem (snd (Execute table_db ?w ?s1))) (length (mem world0)) = [120, 121, 122]"
    by (simp add: ReadWorker_eq exec_defs db_defs example_defs load_def Let_def)
  from read_success_delivers_buffer_or_string [OF h] h b show ?thesis
    by simp
qed

text \<open>
  Claim C10. For every read with \<open>asBuffer\<close> true whose \<^verbatim>\<open>Execute\<close> recorded success,
  the buffer passed to the callback is newly allocated (its address was not in use before
  the completion and differs from the address of the worker's value), it holds the bytes
  of the value, of the same length, the value itself is unchanged, and a later write to
  either of the two does not change the other.
\<close>

theorem read_buffer_is_a_fresh_copy:
  fixes D :: "'d Database" and s :: "'d world" and cb key fc kh
  defines "w \<equiv> fst (ReadWorker cb key True fc kh s)"
      and "s1 \<equiv> snd (ReadWorker cb key True fc kh s)"
  defines "e \<equiv> Execute D w s1"
  defines "fin \<equiv> AsyncQueueWorker D w s1"
  defines "val \<equiv> length (mem s)"
  defines "buf \<equiv> length (mem (snd e))"
  assumes ok: "status (fst e) = OK"
  shows "variant w = IOV key (ReadV \<lparr>fill_cache = fc\<rparr> True val) \<and>
         invocations (added (trace s1) (trace (snd fin))) = [(Some cb, [JsNull, JsBuffer buf])] \<and>
         buf \<noteq> val \<and>
         length (mem (snd e)) \<le> buf \<and> buf < length (mem (snd fin)) \<and>
         load (mem (snd fin)) buf = load (mem (snd e)) val \<and>
         length (load (mem (snd fin)) buf) = length (load (mem (snd e)) val) \<and>
         load (mem (snd fin)) val = load (mem (snd e)) val \<and>
         (\<forall>xs. load ((mem (snd fin))[buf := xs]) val = load (mem (snd e)) val) \<and>
         (\<forall>xs. load ((mem (snd fin))[val := xs]) buf = load (mem (snd e)) val)"
  using ok unfolding w_def s1_def e_def fin_def val_def buf_def ReadWorker_eq
  by (simp add: exec_defs db_defs complete_defs AsyncQueueWorker_def alloc_def load_def nth_append
        Let_def split: prod.splits Status.splits)

text \<open>A run of the theorem: reading the key \<open>a\<close> as a buffer. The memory holds three
  objects, the value of the worker is the fourth and the buffer the fifth.\<close>

theorem read_buffer_run:
  "status (fst (Execute table_db
       (fst (ReadWorker (JsObject 7) key_a True False (JsObject 8) world0))
       (snd (ReadWorker (JsObject 7) key_a True False (JsObject 8) world0)))) = OK \<and>
   invocations (added (trace (snd (ReadWorker (JsObject 7) key_a True False (JsObject 8) world0)))
     (trace (snd (AsyncQueueWorker table_db
       (fst (ReadWorker (JsObject 7) key_a True False (JsObject 8) world0))
       (snd (ReadWorker (JsObject 7) key_a True False (JsObject 8) world0)))))) =
     [(Some (JsObject 7), [JsNull, JsBuffer 4])] \<and>
   load (mem (snd (AsyncQueueWorker table_db
       (fst (ReadWorker (JsObject 7) key_a True False (JsObject 8) world0))
       (snd (ReadWorker (JsObject 7) key_a True False (JsObject 8) world0))))) 4 = [120, 121, 122]"
proof -
  let ?w = "fst (ReadWorker (JsObject 7) key_a True False (JsObject 8) world0)"
  let ?s1 = "snd (ReadWorker (JsObject 7) key_a True False (JsObject 8) world0)"
  have h: "status (fst (Execute table_db ?w ?s1)) = OK"
    by (simp add: ReadWorker_eq exec_defs db_defs example_defs load_def Let_def)
  have m: "mem (snd (Execute table_db ?w ?s1)) = [[97], [98], [120, 121, 122], [120, 121, 122]]"
    by (simp add: ReadWorker_eq exec_defs db_defs example_defs load_def Let_def)
  have len: "length (mem (snd (Execute table_db ?w ?s1))) = 4"
    by (simp add: m)
  have l: "length (mem world0) = 3"
    by (simp add: world0_def)
  have b: "load (mem (snd (Execute table_db ?w ?s1))) 3 = [120, 121, 122]"
    by (simp add: m load_def)
  have c: "invocations (added (trace ?s1) (trace (snd (AsyncQueueWorker table_db ?w ?s1)))) =
      [(Some (JsObject 7), [JsNull, JsBuffer (length (mem (snd (Execute table_db ?w ?s1))))])]"
    using read_buffer_is_a_fresh_copy [OF h] by blast
  have d: "load (mem (snd (AsyncQueueWorker table_db ?w ?s1)))
        (length (mem (snd (Execute table_db ?w ?s1)))) =
      load (mem (snd (Execute table_db ?w ?s1))) (length (mem world0))"
    using read_buffer_is_a_fresh_copy [OF h] by blast
  show ?thesis
    using h c d unfolding len l b by blast
qed

text \<open>
  Claim C3. For every read whose \<^verbatim>\<open>Execute\<close> recorded the status \<open>NotFound\<close>, the
  completion invokes the callback once, with an error of kind \<open>NotFound\<close> carrying the
  message of the status as first argument and a null result: never the success shape,
  and never an error of the kind an I/O failure produces.
\<close>

theorem read_not_found_reaches_callback_as_its_own_error:
  fixes D :: "'d Database" and s :: "'d world" and cb key ab fc kh
  defines "w \<equiv> fst (ReadWorker cb key ab fc kh s)"
      and "s1 \<equiv> snd (ReadWorker cb key ab fc kh s)"
  defines "e \<equiv> Execute D w s1"
  defines "fin \<equiv> AsyncQueueWorker D w s1"
  assumes nf: "status (fst e) = Failed NotFound msg"
  shows "invocations (added (trace s1) (trace (snd fin))) =
           [(Some cb, [JsError NotFound msg, JsNull])] \<and>
         (\<forall>r. invocations (added (trace s1) (trace (snd fin))) \<noteq> [(Some cb, [JsNull, r])]) \<and>
         (\<forall>m r. invocations (added (trace s1) (trace (snd fin))) \<noteq>
                  [(Some cb, [JsError IOError m, r])])"
  using nf unfolding w_def s1_def e_def fin_def ReadWorker_eq
  by (simp add: exec_defs db_defs complete_defs AsyncQueueWorker_def alloc_def load_def nth_append
        Let_def split: prod.splits Status.splits)

text \<open>A run of the theorem: reading the key \<open>b\<close>, which the store does not hold.\<close>

theorem read_absent_key_run:
  "status (fst (Execute table_db
       (fst (ReadWorker (JsObject 7) key_b True False (JsObject 8) world0))
       (snd (ReadWorker (JsObject 7) key_b True False (JsObject 8) world0)))) =
     Failed NotFound ''NotFound: '' \<and>
   invocations (added (trace (snd (ReadWorker (JsObject 7) key_b True False (JsObject 8) world0)))
     (trace (snd (AsyncQueueWorker table_db
       (fst (ReadWorker (JsObject 7) key_b True False (JsObject 8) world0))
       (snd (ReadWorker (JsObject 7) key_b True False (JsObject 8) world0)))))) =
     [(Some (JsObject 7), [JsError NotFound ''NotFound: '', JsNull])]"
proof -
  let ?w = "fst (ReadWorker (JsObject 7) key_b True False (JsObject 8) world0)"
  let ?s1 = "snd (ReadWorker (JsObject 7) key_b True False (JsObject 8) world0)"
  have h: "status (fst (Execute table_db ?w ?s1)) = Failed NotFound ''NotFound: ''"
    by (simp add: ReadWorker_eq exec_defs db_defs example_defs load_def Let_def)
  from read_not_found_reaches_callback_as_its_own_error [OF h] h show ?thesis
    by blast
qed

subsection \<open>Size estimates\<close>

text \<open>
  Claim C5. For every range and every database handle, the \<^verbatim>\<open>Execute\<close> of the
  approximate-size worker leaves the status slot without an error, and the completion
  invokes the callback once, with a null error and a number, the estimate converted to a
  double.
\<close>

theorem approximate_size_never_fails:
  fixes D :: "'d Database" and s :: "'d world" and cb k1 k2 h1 h2
  defines "w \<equiv> ApproximateSizeWorker cb k1 k2 h1 h2"
  defines "est \<equiv> fst (ApproximateSizeFromDatabase D (Range k1 k2) (mem s) (db s))"
  shows "status (fst (Execute D w s)) = OK \<and>
         invocations (added (trace s) (trace (snd (AsyncQueueWorker D w s)))) =
           [(Some cb, [JsNull, JsNumber (double_of_uint64 est)])]"
  unfolding w_def est_def
  by (simp add: all_defs Let_def split: prod.splits Status.splits)

text \<open>
  Claim C6, as amended. The number delivered to the callback is the estimate converted to
  a double: it is a double, and no double is nearer to the estimate. It differs from the
  estimate by at most half of \<open>2 ^ e\<close>, \<open>e\<close> being the number of bits of the estimate
  beyond 53, and for every estimate of at most \<open>2 ^ 53\<close> it equals the estimate exactly.
\<close>

theorem approximate_size_delivered_as_nearest_double:
  fixes D :: "'d Database" and s :: "'d world" and cb k1 k2 h1 h2
  defines "w \<equiv> ApproximateSizeWorker cb k1 k2 h1 h2"
  defines "est \<equiv> fst (ApproximateSizeFromDatabase D (Range k1 k2) (mem s) (db s))"
  defines "delivered \<equiv> invocations (added (trace s) (trace (snd (AsyncQueueWorker D w s))))"
  shows "delivered = [(Some cb, [JsNull, JsNumber (double_of_uint64 est)])] \<and>
         is_double (double_of_uint64 est) \<and>
         (\<forall>m. is_double m \<longrightarrow> \<bar>double_of_uint64 est - uint est\<bar> \<le> \<bar>m - uint est\<bar>) \<and>
         2 * \<bar>double_of_uint64 est - uint est\<bar> \<le> 2 ^ excess_bits (unat est) \<and>
         (unat est \<le> 2 ^ 53 \<longrightarrow> delivered = [(Some cb, [JsNull, JsNumber (uint est)])])"
proof -
  have a: "delivered = [(Some cb, [JsNull, JsNumber (double_of_uint64 est)])]"
    unfolding delivered_def w_def est_def
    by (simp add: all_defs Let_def split: prod.splits Status.splits)
  have b: "2 * \<bar>double_of_uint64 est - uint est\<bar> \<le> 2 ^ excess_bits (unat est)"
    by (rule double_of_uint64_nearest)
  have c: "unat est \<le> 2 ^ 53 \<longrightarrow> delivered = [(Some cb, [JsNull, JsNumber (uint est)])]"
    using a by (simp add: double_of_uint64_exact)
  have d: "is_double (double_of_uint64 est)"
    by (rule double_of_uint64_is_double)
  have e: "\<forall>m. is_double m \<longrightarrow> \<bar>double_of_uint64 est - uint est\<bar> \<le> \<bar>m - uint est\<bar>"
    by (simp add: double_of_uint64_no_nearer)
  from a b c d e show ?thesis
    by blast
qed

text \<open>A run of the theorem: the store of \<open>world0\<close> holds four bytes, and the callback
  receives the number 4, which is no farther from 4 than the double 8 is.\<close>

theorem approximate_size_small_run:
  "unat (fst (ApproximateSizeFromDatabase table_db (Range key_a key_b) (mem world0) (db world0)))
     \<le> 2 ^ 53 \<and>
   is_double 8 \<and>
   invocations (added (trace world0) (trace (snd
      (AsyncQueueWorker table_db
         (ApproximateSizeWorker (JsObject 7) key_a key_b (JsObject 8) (JsObject 9)) world0)))) =
     [(Some (JsObject 7), [JsNull, JsNumber 4])] \<and>
   \<bar>double_of_uint64
      (fst (ApproximateSizeFromDatabase table_db (Range key_a key_b) (mem world0) (db world0))) - 4\<bar>
     \<le> \<bar>8 - (4 :: int)\<bar>"
proof -
  let ?est = "fst (ApproximateSizeFromDatabase table_db (Range key_a key_b) (mem world0) (db world0))"
  note inst = approximate_size_delivered_as_nearest_double
      [where D = table_db and s = world0 and ?k1.0 = key_a and ?k2.0 = key_b
         and cb = "JsObject 7" and ?h1.0 = "JsObject 8" and ?h2.0 = "JsObject 9"]
  have e: "?est = 4"
    by (simp add: example_defs)
  have h: "unat ?est \<le> 2 ^ 53"
    unfolding e by simp
  have "(8 :: nat) < 2 ^ 53 \<and> (8 :: int) = int (8 * 2 ^ 0)"
    by simp
  then have g: "is_double 8"
    unfolding is_double_def by blast
  have i: "invocations (added (trace world0) (trace (snd
      (AsyncQueueWorker table_db
         (ApproximateSizeWorker (JsObject 7) key_a key_b (JsObject 8) (JsObject 9)) world0)))) =
     [(Some (JsObject 7), [JsNull, JsNumber (uint ?est)])]"
    using inst h by blast
  have n: "\<bar>double_of_uint64 ?est - uint ?est\<bar> \<le> \<bar>8 - uint ?est\<bar>"
    using inst g by blast
  have u: "uint ?est = 4"
    unfolding e by simp
  from h g i n show ?thesis
    unfolding u by blast
qed

text \<open>The claim as first stated, for every estimate, fails at \<open>2 ^ 53 + 1\<close>, which is not
  a double: the callback receives \<open>2 ^ 53\<close>.\<close>

theorem approximate_size_above_2_53_is_rounded:
  "invocations (added (trace world0) (trace (snd
      (AsyncQueueWorker (sized_db 9007199254740993)
         (ApproximateSizeWorker (JsObject 7) key_a key_b (JsObject 8) (JsObject 9)) world0)))) =
     [(Some (JsObject 7), [JsNull, JsNumber 9007199254740992])] \<and>
   invocations (added (trace world0) (trace (snd
      (AsyncQueueWorker (sized_db 9007199254740993)
         (ApproximateSizeWorker (JsObject 7) key_a key_b (JsObject 8) (JsObject 9)) world0)))) \<noteq>
     [(Some (JsObject 7), [JsNull, JsNumber (uint (9007199254740993 :: 64 word))])]"
  by (simp add: all_defs example_defs double_of_uint64_2_53_plus_1 Let_def)

end
